theory Spec2Isabelle
  imports Complex_Main
begin

section \<open>The ledger of finanzas-personales-backend\<close>

text \<open>
  The development embeds the transaction handlers of \<^verbatim>\<open>src/routes/transacciones.ts\<close>
  (create, update, delete), the account creation handler of \<^verbatim>\<open>src/routes/cuentas.ts\<close>
  and the part of the relational store they use (\<^verbatim>\<open>src/db/schema.ts\<close>).

  Modelling decisions:
  \<^item> amounts and balances (JavaScript numbers, SQLite \<^verbatim>\<open>real\<close>) are exact rationals;
    rounding of binary floating point is outside the model;
  \<^item> a table is the list of its rows, \<^verbatim>\<open>select ... limit 1\<close> is the first matching row,
    \<^verbatim>\<open>update ... where\<close> rewrites every matching row, \<^verbatim>\<open>delete ... where\<close> drops them;
  \<^item> the store enforces the primary keys and the two \<^verbatim>\<open>check\<close> constraints that
    \<^verbatim>\<open>schema.ts\<close> declares (\<^verbatim>\<open>saldo_positivo\<close>, \<^verbatim>\<open>monto_positivo\<close>): a write that
    violates one raises an exception. Foreign keys are not enforced (the handlers themselves
    treat a dangling account reference as possible);
  \<^item> \<^verbatim>\<open>db.transaction\<close> runs its body on the store and either returns the new store
    or an exception, in which case the caller keeps the store it had (rollback);
  \<^item> the ORM update \<^verbatim>\<open>.set({...validatedData, updatedAt})\<close> writes the columns whose keys
    the body shares with the table (\<^verbatim>\<open>tipo\<close>, \<^verbatim>\<open>monto\<close>, \<^verbatim>\<open>fecha\<close>, \<^verbatim>\<open>notas\<close>) and
    \<^verbatim>\<open>updatedAt\<close>; the body's keys \<^verbatim>\<open>categoria_id\<close>, \<^verbatim>\<open>cuenta_id\<close> and
    \<^verbatim>\<open>foto_comprobante_url\<close> are not keys of the table (\<^verbatim>\<open>categoriaId\<close>, \<^verbatim>\<open>cuentaId\<close>,
    \<^verbatim>\<open>fotoComprobanteUrl\<close> in \<^verbatim>\<open>schema.ts\<close>, which create renames by hand) and are not
    written;
  \<^item> the clock, the identifier generator and the URL test of the validation library are
    inputs of a handler (record \<open>env\<close>); the handlers are modelled after the
    authentication and permission middleware has accepted the request;
  \<^item> the payload of a success envelope (a joined row read back after the write) is left
    out; messages are written without accents.
\<close>

subsection \<open>Rows and tables (\<^verbatim>\<open>db/schema.ts\<close>)\<close>

datatype tipo = Ingreso | Gasto

record cuenta =
  c_id :: string
  c_cuentaMaestraId :: string
  c_nombre :: string
  c_saldo :: rat
  c_tipo :: string
  c_color :: string
  c_icono :: string
  c_activa :: bool
  c_createdAt :: string
  c_updatedAt :: string

record categoria =
  g_id :: string
  g_cuentaMaestraId :: string
  g_nombre :: string
  g_tipo :: tipo
  g_activa :: bool

record transaccion =
  t_id :: string
  t_cuentaMaestraId :: string
  t_usuarioId :: string
  t_tipo :: tipo
  t_monto :: rat
  t_categoriaId :: string
  t_cuentaId :: string
  t_fecha :: string
  t_notas :: "string option"
  t_fotoComprobanteUrl :: "string option"
  t_createdAt :: string
  t_updatedAt :: string

record database =
  cuentas :: "cuenta list"
  categorias :: "categoria list"
  transacciones :: "transaccion list"

subsection \<open>Requests, replies, exceptions\<close>

record user =
  u_id :: string
  u_cuenta_maestra_id :: string

record env =
  now :: string
  nanoid :: string
  is_url :: "string \<Rightarrow> bool"

record create_body =
  b_tipo :: tipo
  b_monto :: rat
  b_categoria_id :: string
  b_cuenta_id :: string
  b_fecha :: string
  b_notas :: "string option"
  b_foto_comprobante_url :: "string option"

record update_body =
  p_tipo :: "tipo option"
  p_monto :: "rat option"
  p_categoria_id :: "string option"
  p_cuenta_id :: "string option"
  p_fecha :: "string option"
  p_notas :: "string option"
  p_foto_comprobante_url :: "string option"

record cuenta_body =
  a_nombre :: string
  a_saldo :: "rat option"
  a_tipo :: "string option"
  a_color :: "string option"
  a_icono :: "string option"

text \<open>\<^verbatim>\<open>utils/responses.ts\<close>: the two envelopes; a reply is an envelope and an HTTP status.\<close>

datatype response = SuccessResponse string | ErrorResponse string string

type_synonym reply = "response \<times> nat"

definition successResponse :: "string \<Rightarrow> reply" where
  "successResponse message = (SuccessResponse message, 200)"

definition makeError :: "string \<Rightarrow> string \<Rightarrow> nat \<Rightarrow> reply" where
  "makeError code message status = (ErrorResponse code message, status)"

datatype exn = Error string

subsection \<open>Validation schemas\<close>

fun url_opt :: "env \<Rightarrow> string option \<Rightarrow> bool" where
  "url_opt e None = True"
| "url_opt e (Some s) = is_url e s"

fun min1_opt :: "string option \<Rightarrow> bool" where
  "min1_opt None = True"
| "min1_opt (Some s) = (s \<noteq> [])"

fun positive_opt :: "rat option \<Rightarrow> bool" where
  "positive_opt None = True"
| "positive_opt (Some m) = (0 < m)"

definition createTransaccionSchema :: "env \<Rightarrow> create_body \<Rightarrow> bool" where
  "createTransaccionSchema e b \<longleftrightarrow>
     0 < b_monto b \<and> b_categoria_id b \<noteq> [] \<and> b_cuenta_id b \<noteq> [] \<and> b_fecha b \<noteq> [] \<and>
     url_opt e (b_foto_comprobante_url b)"

definition updateTransaccionSchema :: "env \<Rightarrow> update_body \<Rightarrow> bool" where
  "updateTransaccionSchema e p \<longleftrightarrow>
     positive_opt (p_monto p) \<and> min1_opt (p_categoria_id p) \<and> min1_opt (p_cuenta_id p) \<and>
     min1_opt (p_fecha p) \<and> url_opt e (p_foto_comprobante_url p)"

definition createCuentaSchema :: "cuenta_body \<Rightarrow> bool" where
  "createCuentaSchema a \<longleftrightarrow>
     a_nombre a \<noteq> [] \<and> (case a_saldo a of None \<Rightarrow> True | Some s \<Rightarrow> 0 \<le> s)"

text \<open>JavaScript truthiness of an optional field and the \<^verbatim>\<open>x || y\<close> default.\<close>

fun truthy_str :: "string option \<Rightarrow> bool" where
  "truthy_str None = False"
| "truthy_str (Some s) = (s \<noteq> [])"

fun truthy_num :: "rat option \<Rightarrow> bool" where
  "truthy_num None = False"
| "truthy_num (Some m) = (m \<noteq> 0)"

fun truthy_tipo :: "tipo option \<Rightarrow> bool" where
  "truthy_tipo None = False"
| "truthy_tipo (Some k) = True"

fun or_str :: "string option \<Rightarrow> string \<Rightarrow> string" where
  "or_str None d = d"
| "or_str (Some s) d = (if s \<noteq> [] then s else d)"

fun or_num :: "rat option \<Rightarrow> rat \<Rightarrow> rat" where
  "or_num None d = d"
| "or_num (Some m) d = (if m \<noteq> 0 then m else d)"

fun or_tipo :: "tipo option \<Rightarrow> tipo \<Rightarrow> tipo" where
  "or_tipo None d = d"
| "or_tipo (Some k) d = k"

subsection \<open>The store's statements\<close>

definition select_categoria :: "user \<Rightarrow> string \<Rightarrow> database \<Rightarrow> categoria option" where
  "select_categoria u i db =
     find (\<lambda>g. g_id g = i \<and> g_cuentaMaestraId g = u_cuenta_maestra_id u \<and> g_activa g)
       (categorias db)"

definition select_cuenta_activa :: "user \<Rightarrow> string \<Rightarrow> database \<Rightarrow> cuenta option" where
  "select_cuenta_activa u i db =
     find (\<lambda>c. c_id c = i \<and> c_cuentaMaestraId c = u_cuenta_maestra_id u \<and> c_activa c)
       (cuentas db)"

definition select_cuenta :: "string \<Rightarrow> database \<Rightarrow> cuenta option" where
  "select_cuenta i db = find (\<lambda>c. c_id c = i) (cuentas db)"

definition select_transaccion :: "user \<Rightarrow> string \<Rightarrow> database \<Rightarrow> transaccion option" where
  "select_transaccion u i db =
     find (\<lambda>t. t_id t = i \<and> t_cuentaMaestraId t = u_cuenta_maestra_id u) (transacciones db)"

definition insert_transaccion :: "transaccion \<Rightarrow> database \<Rightarrow> exn + database" where
  "insert_transaccion t db =
     (if list_ex (\<lambda>r. t_id r = t_id t) (transacciones db)
      then Inl (Error ''UNIQUE constraint failed: transacciones.id'')
      else if \<not> 0 < t_monto t then Inl (Error ''CHECK constraint failed: monto_positivo'')
      else Inr (db\<lparr>transacciones := transacciones db @ [t]\<rparr>))"

definition insert_cuenta :: "cuenta \<Rightarrow> database \<Rightarrow> exn + database" where
  "insert_cuenta c db =
     (if list_ex (\<lambda>r. c_id r = c_id c) (cuentas db)
      then Inl (Error ''UNIQUE constraint failed: cuentas.id'')
      else if \<not> 0 \<le> c_saldo c then Inl (Error ''CHECK constraint failed: saldo_positivo'')
      else Inr (db\<lparr>cuentas := cuentas db @ [c]\<rparr>))"

definition update_cuenta_saldo :: "string \<Rightarrow> rat \<Rightarrow> string \<Rightarrow> database \<Rightarrow> exn + database" where
  "update_cuenta_saldo i s ts db =
     (if list_ex (\<lambda>c. c_id c = i) (cuentas db) \<and> \<not> 0 \<le> s
      then Inl (Error ''CHECK constraint failed: saldo_positivo'')
      else Inr (db\<lparr>cuentas :=
        map (\<lambda>c. if c_id c = i then c\<lparr>c_saldo := s, c_updatedAt := ts\<rparr> else c) (cuentas db)\<rparr>))"

definition set_fields :: "update_body \<Rightarrow> string \<Rightarrow> transaccion \<Rightarrow> transaccion" where
  "set_fields p ts t =
     t\<lparr>t_tipo := (case p_tipo p of None \<Rightarrow> t_tipo t | Some k \<Rightarrow> k),
       t_monto := (case p_monto p of None \<Rightarrow> t_monto t | Some m \<Rightarrow> m),
       t_fecha := (case p_fecha p of None \<Rightarrow> t_fecha t | Some f \<Rightarrow> f),
       t_notas := (case p_notas p of None \<Rightarrow> t_notas t | Some n \<Rightarrow> Some n),
       t_updatedAt := ts\<rparr>"

definition update_transaccion :: "string \<Rightarrow> update_body \<Rightarrow> string \<Rightarrow> database \<Rightarrow> exn + database" where
  "update_transaccion i p ts db =
     (if list_ex (\<lambda>t. t_id t = i) (transacciones db) \<and> \<not> positive_opt (p_monto p)
      then Inl (Error ''CHECK constraint failed: monto_positivo'')
      else Inr (db\<lparr>transacciones :=
        map (\<lambda>t. if t_id t = i then set_fields p ts t else t) (transacciones db)\<rparr>))"

definition delete_transaccion :: "string \<Rightarrow> database \<Rightarrow> exn + database" where
  "delete_transaccion i db =
     Inr (db\<lparr>transacciones := filter (\<lambda>t. t_id t \<noteq> i) (transacciones db)\<rparr>)"

text \<open>\<^verbatim>\<open>db.transaction(async (tx) => ...)\<close>: all the writes of the body, or the exception.\<close>

definition transaction :: "(database \<Rightarrow> exn + database) \<Rightarrow> database \<Rightarrow> exn + database" where
  "transaction body db = body db"

subsection \<open>\<^verbatim>\<open>cuentasRouter.post\<close>\<close>

definition cuentasRouter_post :: "env \<Rightarrow> user \<Rightarrow> cuenta_body \<Rightarrow> database \<Rightarrow> database \<times> reply" where
  "cuentasRouter_post e u a db =
     (if \<not> createCuentaSchema a then (db, makeError ''ERR_VALIDATION'' ''Datos invalidos'' 400)
      else if list_ex (\<lambda>c. c_nombre c = a_nombre a \<and> c_cuentaMaestraId c = u_cuenta_maestra_id u)
                (cuentas db)
      then (db, makeError ''ERR_CONFLICT'' ''Ya existe una cuenta con este nombre'' 409)
      else
        (case insert_cuenta
           \<lparr>c_id = nanoid e, c_cuentaMaestraId = u_cuenta_maestra_id u, c_nombre = a_nombre a,
            c_saldo = (case a_saldo a of None \<Rightarrow> 0 | Some s \<Rightarrow> s),
            c_tipo = (case a_tipo a of None \<Rightarrow> ''efectivo'' | Some x \<Rightarrow> x),
            c_color = (case a_color a of None \<Rightarrow> ''#3B82F6'' | Some x \<Rightarrow> x),
            c_icono = (case a_icono a of None \<Rightarrow> ''Wallet'' | Some x \<Rightarrow> x),
            c_activa = True, c_createdAt = now e, c_updatedAt = now e\<rparr> db of
           Inl x \<Rightarrow> (db, makeError ''ERR_INTERNAL'' ''Error al crear cuenta'' 500)
         | Inr db' \<Rightarrow> (db', successResponse ''Cuenta creada correctamente'')))"

subsection \<open>\<^verbatim>\<open>transaccionesRouter.post\<close>\<close>

definition post_tx :: "env \<Rightarrow> user \<Rightarrow> create_body \<Rightarrow> cuenta \<Rightarrow> database \<Rightarrow> exn + database" where
  "post_tx e u b cuenta0 tx =
     (case insert_transaccion
        \<lparr>t_id = nanoid e, t_cuentaMaestraId = u_cuenta_maestra_id u, t_usuarioId = u_id u,
         t_tipo = b_tipo b, t_monto = b_monto b, t_categoriaId = b_categoria_id b,
         t_cuentaId = b_cuenta_id b, t_fecha = b_fecha b, t_notas = b_notas b,
         t_fotoComprobanteUrl = b_foto_comprobante_url b,
         t_createdAt = now e, t_updatedAt = now e\<rparr> tx of
        Inl x \<Rightarrow> Inl x
      | Inr tx1 \<Rightarrow>
          update_cuenta_saldo (b_cuenta_id b)
            (if b_tipo b = Ingreso then c_saldo cuenta0 + b_monto b
             else c_saldo cuenta0 - b_monto b)
            (now e) tx1)"

definition transaccionesRouter_post ::
  "env \<Rightarrow> user \<Rightarrow> create_body \<Rightarrow> database \<Rightarrow> database \<times> reply" where
  "transaccionesRouter_post e u b db =
     (if \<not> createTransaccionSchema e b
      then (db, makeError ''ERR_VALIDATION'' ''Datos invalidos'' 400)
      else
        (case select_categoria u (b_categoria_id b) db of
           None \<Rightarrow> (db, makeError ''ERR_NOT_FOUND'' ''Categoria no encontrada o inactiva'' 404)
         | Some categoria0 \<Rightarrow>
             if g_tipo categoria0 \<noteq> b_tipo b
             then (db, makeError ''ERR_VALIDATION''
                         ''El tipo de transaccion no coincide con el tipo de categoria'' 400)
             else
               (case select_cuenta_activa u (b_cuenta_id b) db of
                  None \<Rightarrow> (db, makeError ''ERR_NOT_FOUND'' ''Cuenta no encontrada o inactiva'' 404)
                | Some cuenta0 \<Rightarrow>
                    if b_tipo b = Gasto \<and> c_saldo cuenta0 < b_monto b
                    then (db, makeError ''ERR_VALIDATION'' ''Saldo insuficiente en la cuenta'' 400)
                    else
                      (case transaction (post_tx e u b cuenta0) db of
                         Inl x \<Rightarrow>
                           (db, makeError ''ERR_INTERNAL'' ''Error al crear transaccion'' 500)
                       | Inr db' \<Rightarrow>
                           (db', successResponse ''Transaccion creada correctamente'')))))"

subsection \<open>\<^verbatim>\<open>transaccionesRouter.patch\<close>\<close>

definition revert_old :: "env \<Rightarrow> transaccion \<Rightarrow> database \<Rightarrow> exn + database" where
  "revert_old e old tx =
     (case select_cuenta (t_cuentaId old) tx of
        None \<Rightarrow> Inr tx
      | Some cuentaAnterior \<Rightarrow>
          update_cuenta_saldo (t_cuentaId old)
            (if t_tipo old = Ingreso then c_saldo cuentaAnterior - t_monto old
             else c_saldo cuentaAnterior + t_monto old)
            (now e) tx)"

definition apply_new :: "env \<Rightarrow> transaccion \<Rightarrow> update_body \<Rightarrow> database \<Rightarrow> exn + database" where
  "apply_new e old p tx =
     (let nuevaCuentaId = or_str (p_cuenta_id p) (t_cuentaId old);
          nuevoMonto = or_num (p_monto p) (t_monto old);
          nuevoTipo = or_tipo (p_tipo p) (t_tipo old)
      in case select_cuenta nuevaCuentaId tx of
           None \<Rightarrow> Inr tx
         | Some cuentaNueva \<Rightarrow>
             (let nuevoSaldo = (if nuevoTipo = Ingreso then c_saldo cuentaNueva + nuevoMonto
                                else c_saldo cuentaNueva - nuevoMonto)
              in if nuevoTipo = Gasto \<and> nuevoSaldo < 0
                 then Inl (Error ''Saldo insuficiente en la cuenta'')
                 else update_cuenta_saldo nuevaCuentaId nuevoSaldo (now e) tx))"

definition patch_tx ::
  "env \<Rightarrow> transaccion \<Rightarrow> string \<Rightarrow> update_body \<Rightarrow> database \<Rightarrow> exn + database" where
  "patch_tx e old i p tx =
     (case (if truthy_num (p_monto p) \<or> truthy_tipo (p_tipo p) \<or> truthy_str (p_cuenta_id p)
            then (case revert_old e old tx of
                    Inl x \<Rightarrow> Inl x
                  | Inr tx1 \<Rightarrow> apply_new e old p tx1)
            else Inr tx) of
        Inl x \<Rightarrow> Inl x
      | Inr tx2 \<Rightarrow> update_transaccion i p (now e) tx2)"

definition patch_catch :: "exn \<Rightarrow> reply" where
  "patch_catch x =
     (case x of Error m \<Rightarrow>
        if m = ''Saldo insuficiente en la cuenta''
        then makeError ''ERR_VALIDATION'' ''Saldo insuficiente en la cuenta'' 400
        else makeError ''ERR_INTERNAL'' ''Error al actualizar transaccion'' 500)"

text \<open>The two guarded blocks before the atomic unit; \<open>Some r\<close> is the early return.\<close>

definition check_categoria :: "user \<Rightarrow> transaccion \<Rightarrow> update_body \<Rightarrow> database \<Rightarrow> reply option" where
  "check_categoria u old p db =
     (case p_categoria_id p of
        None \<Rightarrow> None
      | Some categoria_id \<Rightarrow>
          if categoria_id = [] then None
          else
            (case select_categoria u categoria_id db of
               None \<Rightarrow> Some (makeError ''ERR_NOT_FOUND'' ''Categoria no encontrada o inactiva'' 404)
             | Some categoria0 \<Rightarrow>
                 if g_tipo categoria0 \<noteq> or_tipo (p_tipo p) (t_tipo old)
                 then Some (makeError ''ERR_VALIDATION''
                              ''El tipo de transaccion no coincide con el tipo de categoria'' 400)
                 else None))"

definition check_cuenta :: "user \<Rightarrow> update_body \<Rightarrow> database \<Rightarrow> reply option" where
  "check_cuenta u p db =
     (case p_cuenta_id p of
        None \<Rightarrow> None
      | Some cuenta_id \<Rightarrow>
          if cuenta_id = [] then None
          else
            (case select_cuenta_activa u cuenta_id db of
               None \<Rightarrow> Some (makeError ''ERR_NOT_FOUND'' ''Cuenta no encontrada o inactiva'' 404)
             | Some cuenta0 \<Rightarrow> None))"

definition transaccionesRouter_patch ::
  "env \<Rightarrow> user \<Rightarrow> string \<Rightarrow> update_body \<Rightarrow> database \<Rightarrow> database \<times> reply" where
  "transaccionesRouter_patch e u i p db =
     (if \<not> updateTransaccionSchema e p
      then (db, makeError ''ERR_VALIDATION'' ''Datos invalidos'' 400)
      else
        (case select_transaccion u i db of
           None \<Rightarrow> (db, makeError ''ERR_NOT_FOUND'' ''Transaccion no encontrada'' 404)
         | Some oldTransaccion \<Rightarrow>
             (case check_categoria u oldTransaccion p db of
                Some r \<Rightarrow> (db, r)
              | None \<Rightarrow>
                  (case check_cuenta u p db of
                     Some r \<Rightarrow> (db, r)
                   | None \<Rightarrow>
                       (case transaction (patch_tx e oldTransaccion i p) db of
                          Inl x \<Rightarrow> (db, patch_catch x)
                        | Inr db' \<Rightarrow>
                            (db', successResponse ''Transaccion actualizada correctamente''))))))"

subsection \<open>\<^verbatim>\<open>transaccionesRouter.delete\<close>\<close>

definition delete_tx :: "env \<Rightarrow> transaccion \<Rightarrow> string \<Rightarrow> database \<Rightarrow> exn + database" where
  "delete_tx e t i tx =
     (case (case select_cuenta (t_cuentaId t) tx of
              None \<Rightarrow> Inr tx
            | Some cuenta0 \<Rightarrow>
                update_cuenta_saldo (t_cuentaId t)
                  (if t_tipo t = Ingreso then c_saldo cuenta0 - t_monto t
                   else c_saldo cuenta0 + t_monto t)
                  (now e) tx) of
        Inl x \<Rightarrow> Inl x
      | Inr tx1 \<Rightarrow> delete_transaccion i tx1)"

definition transaccionesRouter_delete ::
  "env \<Rightarrow> user \<Rightarrow> string \<Rightarrow> database \<Rightarrow> database \<times> reply" where
  "transaccionesRouter_delete e u i db =
     (case select_transaccion u i db of
        None \<Rightarrow> (db, makeError ''ERR_NOT_FOUND'' ''Transaccion no encontrada'' 404)
      | Some t \<Rightarrow>
          (case transaction (delete_tx e t i) db of
             Inl x \<Rightarrow> (db, makeError ''ERR_INTERNAL'' ''Error al eliminar transaccion'' 500)
           | Inr db' \<Rightarrow> (db', successResponse ''Transaccion eliminada correctamente'')))"

subsection \<open>Sequences of ledger operations\<close>

datatype op =
  Create env user create_body
| Update env user string update_body
| Delete env user string

fun step :: "database \<Rightarrow> op \<Rightarrow> database" where
  "step db (Create e u b) = fst (transaccionesRouter_post e u b db)"
| "step db (Update e u i p) = fst (transaccionesRouter_patch e u i p db)"
| "step db (Delete e u i) = fst (transaccionesRouter_delete e u i db)"

definition run :: "database \<Rightarrow> op list \<Rightarrow> database" where
  "run db ops = foldl step db ops"


subsection \<open>Notions the properties are stated with\<close>

text \<open>The signed contribution of a transaction, and their sum over one account.\<close>

definition signed :: "transaccion \<Rightarrow> rat" where
  "signed t = (if t_tipo t = Ingreso then t_monto t else - t_monto t)"

definition contrib :: "string \<Rightarrow> transaccion list \<Rightarrow> rat" where
  "contrib a ts = sum_list (map signed (filter (\<lambda>t. t_cuentaId t = a) ts))"

text \<open>The stored balance of the account with a given identifier.\<close>

definition saldo_of :: "string \<Rightarrow> database \<Rightarrow> rat option" where
  "saldo_of a db = map_option c_saldo (select_cuenta a db)"

text \<open>
  The ledger relation: transaction identifiers are unique, and every account row stores
  its opening balance \<open>base\<close> plus the contributions of the transactions persisted for it.
\<close>

definition ledger :: "(string \<Rightarrow> rat) \<Rightarrow> database \<Rightarrow> bool" where
  "ledger base db \<longleftrightarrow>
     distinct (map t_id (transacciones db)) \<and>
     (\<forall>c \<in> set (cuentas db). c_saldo c = base (c_id c) + contrib (c_id c) (transacciones db))"


text \<open>Every transaction has the kind of the category it references.\<close>

definition kind_matches :: "database \<Rightarrow> bool" where
  "kind_matches db \<longleftrightarrow>
     list_all (\<lambda>t. case find (\<lambda>g. g_id g = t_categoriaId t) (categorias db) of
                       None \<Rightarrow> False
                     | Some g \<Rightarrow> g_tipo g = t_tipo t)
       (transacciones db)"


subsection \<open>Concrete stores and requests\<close>

definition env_at :: "string \<Rightarrow> string \<Rightarrow> env" where
  "env_at ts i = \<lparr>now = ts, nanoid = i, is_url = (\<lambda>s. True)\<rparr>"

definition usuario :: user where
  "usuario = \<lparr>u_id = ''u1'', u_cuenta_maestra_id = ''m1''\<rparr>"

definition cat_food :: categoria where
  "cat_food = \<lparr>g_id = ''food'', g_cuentaMaestraId = ''m1'', g_nombre = ''Food'',
                g_tipo = Gasto, g_activa = True\<rparr>"

definition cat_salario :: categoria where
  "cat_salario = \<lparr>g_id = ''salario'', g_cuentaMaestraId = ''m1'', g_nombre = ''Salario'',
                   g_tipo = Ingreso, g_activa = True\<rparr>"

definition cuenta_row :: "string \<Rightarrow> rat \<Rightarrow> cuenta" where
  "cuenta_row i s = \<lparr>c_id = i, c_cuentaMaestraId = ''m1'', c_nombre = i, c_saldo = s,
     c_tipo = ''efectivo'', c_color = ''#3B82F6'', c_icono = ''Wallet'', c_activa = True,
     c_createdAt = ''t0'', c_updatedAt = ''t0''\<rparr>"

definition tx_row :: "string \<Rightarrow> tipo \<Rightarrow> rat \<Rightarrow> string \<Rightarrow> string \<Rightarrow> transaccion" where
  "tx_row i k m g a = \<lparr>t_id = i, t_cuentaMaestraId = ''m1'', t_usuarioId = ''u1'', t_tipo = k,
     t_monto = m, t_categoriaId = g, t_cuentaId = a, t_fecha = ''2024-01-15'', t_notas = None,
     t_fotoComprobanteUrl = None, t_createdAt = ''t0'', t_updatedAt = ''t0''\<rparr>"

definition store :: "cuenta list \<Rightarrow> transaccion list \<Rightarrow> database" where
  "store cs ts = \<lparr>cuentas = cs, categorias = [cat_food, cat_salario], transacciones = ts\<rparr>"

definition new_tx :: "tipo \<Rightarrow> rat \<Rightarrow> string \<Rightarrow> string \<Rightarrow> create_body" where
  "new_tx k m g a = \<lparr>b_tipo = k, b_monto = m, b_categoria_id = g, b_cuenta_id = a,
     b_fecha = ''2024-01-15'', b_notas = None, b_foto_comprobante_url = None\<rparr>"

definition no_change :: update_body where
  "no_change = \<lparr>p_tipo = None, p_monto = None, p_categoria_id = None, p_cuenta_id = None,
     p_fecha = None, p_notas = None, p_foto_comprobante_url = None\<rparr>"

definition new_cuenta :: "string \<Rightarrow> rat \<Rightarrow> cuenta_body" where
  "new_cuenta n s = \<lparr>a_nombre = n, a_saldo = Some s, a_tipo = None, a_color = None,
     a_icono = None\<rparr>"


text \<open>
  A store reached through the handlers: account \<open>A\<close> opened empty, an income of 50
  (\<open>t1\<close>) and an expense of 40 (\<open>t2\<close>) created on it; the balance is 10.
\<close>

definition spent_store :: database where
  "spent_store =
     run (store [cuenta_row ''A'' 0] [])
       [Create (env_at ''t1'' ''t1'') usuario (new_tx Ingreso 50 ''salario'' ''A''),
        Create (env_at ''t2'' ''t2'') usuario (new_tx Gasto 40 ''food'' ''A'')]"

lemmas schema_defs = createTransaccionSchema_def updateTransaccionSchema_def createCuentaSchema_def

lemmas select_defs = select_categoria_def select_cuenta_activa_def select_cuenta_def
  select_transaccion_def

lemmas write_defs = insert_transaccion_def insert_cuenta_def update_cuenta_saldo_def
  update_transaccion_def delete_transaccion_def set_fields_def transaction_def

lemmas handler_defs = cuentasRouter_post_def transaccionesRouter_post_def post_tx_def
  transaccionesRouter_patch_def patch_tx_def revert_old_def apply_new_def patch_catch_def
  check_categoria_def check_cuenta_def transaccionesRouter_delete_def delete_tx_def
  successResponse_def makeError_def

lemmas fixture_defs = env_at_def usuario_def cat_food_def cat_salario_def cuenta_row_def
  tx_row_def store_def new_tx_def no_change_def new_cuenta_def

lemmas eval_defs = handler_defs schema_defs select_defs write_defs fixture_defs Let_def

section \<open>Properties\<close>

subsection \<open>Lookups and balance writes\<close>

lemma find_Some_mem: "find P xs = Some x \<Longrightarrow> x \<in> set xs \<and> P x"
  by (induction xs) (auto split: if_splits)

lemma find_map_saldo:
  "find (\<lambda>c. c_id c = i) (map (\<lambda>c. if c_id c = i then c\<lparr>c_saldo := s, c_updatedAt := ts\<rparr> else c) cs)
   = map_option (\<lambda>c. c\<lparr>c_saldo := s, c_updatedAt := ts\<rparr>) (find (\<lambda>c. c_id c = i) cs)"
  by (induction cs) auto

lemma find_map_saldo_other:
  "j \<noteq> i \<Longrightarrow>
   find (\<lambda>c. c_id c = j) (map (\<lambda>c. if c_id c = i then c\<lparr>c_saldo := s, c_updatedAt := ts\<rparr> else c) cs)
   = find (\<lambda>c. c_id c = j) cs"
  by (induction cs) auto

subsection \<open>Outcomes of create\<close>

text \<open>The outcomes of create: an error reply with the store as it was, or the atomic unit's store.\<close>

lemma post_outcome:
  "(fst (transaccionesRouter_post e u b db) = db \<and>
    snd (snd (transaccionesRouter_post e u b db)) \<noteq> 200) \<or>
   (\<exists>g c db'. createTransaccionSchema e b \<and>
      select_categoria u (b_categoria_id b) db = Some g \<and> g_tipo g = b_tipo b \<and>
      select_cuenta_activa u (b_cuenta_id b) db = Some c \<and>
      \<not> (b_tipo b = Gasto \<and> c_saldo c < b_monto b) \<and>
      post_tx e u b c db = Inr db' \<and>
      transaccionesRouter_post e u b db =
        (db', SuccessResponse ''Transaccion creada correctamente'', 200))"
proof (cases "createTransaccionSchema e b")
  case False
  then show ?thesis by (simp add: transaccionesRouter_post_def makeError_def)
next
  case valid: True
  show ?thesis
  proof (cases "select_categoria u (b_categoria_id b) db")
    case None
    with valid show ?thesis by (simp add: transaccionesRouter_post_def makeError_def)
  next
    case (Some g)
    note g = this
    show ?thesis
    proof (cases "g_tipo g = b_tipo b")
      case False
      with valid g show ?thesis by (simp add: transaccionesRouter_post_def makeError_def)
    next
      case kind: True
      show ?thesis
      proof (cases "select_cuenta_activa u (b_cuenta_id b) db")
        case None
        with valid g kind show ?thesis by (simp add: transaccionesRouter_post_def makeError_def)
      next
        case (Some c)
        note c = this
        show ?thesis
        proof (cases "b_tipo b = Gasto \<and> c_saldo c < b_monto b")
          case True
          with valid g kind c show ?thesis
            by (simp add: transaccionesRouter_post_def makeError_def)
        next
          case enough: False
          show ?thesis
          proof (cases "post_tx e u b c db")
            case (Inl x)
            with valid g kind c enough show ?thesis
              by (auto simp add: transaccionesRouter_post_def makeError_def transaction_def)
          next
            case (Inr db')
            with valid g kind c enough show ?thesis
              by (auto simp add: transaccionesRouter_post_def successResponse_def transaction_def)
          qed
        qed
      qed
    qed
  qed
qed

lemma post_failure_unchanged:
  "snd (snd (transaccionesRouter_post e u b db)) \<noteq> 200 \<Longrightarrow>
   fst (transaccionesRouter_post e u b db) = db"
  using post_outcome [of e u b db] by auto

lemma post_tx_effect:
  assumes "post_tx e u b c db = Inr db'"
  shows "transacciones db' = transacciones db @
             [\<lparr>t_id = nanoid e, t_cuentaMaestraId = u_cuenta_maestra_id u, t_usuarioId = u_id u,
               t_tipo = b_tipo b, t_monto = b_monto b, t_categoriaId = b_categoria_id b,
               t_cuentaId = b_cuenta_id b, t_fecha = b_fecha b, t_notas = b_notas b,
               t_fotoComprobanteUrl = b_foto_comprobante_url b,
               t_createdAt = now e, t_updatedAt = now e\<rparr>]"
    and "cuentas db' = map (\<lambda>r. if c_id r = b_cuenta_id b
            then r\<lparr>c_saldo := (if b_tipo b = Ingreso then c_saldo c + b_monto b
                                 else c_saldo c - b_monto b), c_updatedAt := now e\<rparr>
            else r) (cuentas db)"
    and "categorias db' = categorias db"
    and "\<not> list_ex (\<lambda>r. t_id r = nanoid e) (transacciones db)"
  using assms
  by (auto simp add: post_tx_def insert_transaccion_def update_cuenta_saldo_def
      split: if_splits)

lemma find_weaken:
  "find (\<lambda>x. P x \<and> Q x) xs = Some y \<Longrightarrow> \<exists>r. find P xs = Some r"
  by (induction xs) (auto split: if_splits)

lemma post_success:
  assumes "transaccionesRouter_post e u b db = (db', SuccessResponse m, 200)"
  shows "\<exists>c. select_cuenta_activa u (b_cuenta_id b) db = Some c \<and> post_tx e u b c db = Inr db'"
proof -
  from assms have "snd (snd (transaccionesRouter_post e u b db)) = 200" by simp
  with post_outcome [of e u b db] obtain g c db'' where
    "select_cuenta_activa u (b_cuenta_id b) db = Some c"
    "post_tx e u b c db = Inr db''"
    "transaccionesRouter_post e u b db =
        (db'', SuccessResponse ''Transaccion creada correctamente'', 200)"
    by blast
  with assms show ?thesis by simp
qed

lemma post_balance_read:
  assumes "transaccionesRouter_post e u b db = (db', SuccessResponse m, 200)"
  shows "\<exists>c. select_cuenta_activa u (b_cuenta_id b) db = Some c \<and>
           saldo_of (b_cuenta_id b) db' =
             Some (if b_tipo b = Ingreso then c_saldo c + b_monto b else c_saldo c - b_monto b)"
proof -
  from post_success [OF assms] obtain c where
    c: "select_cuenta_activa u (b_cuenta_id b) db = Some c" and
    tx: "post_tx e u b c db = Inr db'"
    by blast
  from c obtain r where r: "find (\<lambda>r. c_id r = b_cuenta_id b) (cuentas db) = Some r"
    unfolding select_cuenta_activa_def using find_weaken by fast
  have "saldo_of (b_cuenta_id b) db' =
       Some (if b_tipo b = Ingreso then c_saldo c + b_monto b else c_saldo c - b_monto b)"
    unfolding saldo_of_def select_cuenta_def post_tx_effect(2) [OF tx] find_map_saldo r
    by simp
  with c show ?thesis by blast
qed

subsection \<open>Outcomes of update\<close>

lemma patch_catch_status: "snd (patch_catch x) \<noteq> 200"
  by (cases x) (simp add: patch_catch_def makeError_def)

lemma check_categoria_status: "check_categoria u old p db = Some r \<Longrightarrow> snd r \<noteq> 200"
  by (auto simp add: check_categoria_def makeError_def split: option.splits if_splits)

lemma check_cuenta_status: "check_cuenta u p db = Some r \<Longrightarrow> snd r \<noteq> 200"
  by (auto simp add: check_cuenta_def makeError_def split: option.splits if_splits)

text \<open>The outcomes of update: an error reply with the store as it was, or the atomic unit's store.\<close>

lemma patch_outcome:
  "(fst (transaccionesRouter_patch e u i p db) = db \<and>
    snd (snd (transaccionesRouter_patch e u i p db)) \<noteq> 200) \<or>
   (\<exists>old db'. updateTransaccionSchema e p \<and>
      select_transaccion u i db = Some old \<and>
      check_categoria u old p db = None \<and> check_cuenta u p db = None \<and>
      patch_tx e old i p db = Inr db' \<and>
      transaccionesRouter_patch e u i p db =
        (db', SuccessResponse ''Transaccion actualizada correctamente'', 200))"
proof (cases "updateTransaccionSchema e p")
  case False
  then show ?thesis by (simp add: transaccionesRouter_patch_def makeError_def)
next
  case valid: True
  show ?thesis
  proof (cases "select_transaccion u i db")
    case None
    with valid show ?thesis by (simp add: transaccionesRouter_patch_def makeError_def)
  next
    case (Some old)
    note old = this
    show ?thesis
    proof (cases "check_categoria u old p db")
      case (Some r)
      with valid old check_categoria_status [OF Some] show ?thesis
        by (simp add: transaccionesRouter_patch_def)
    next
      case cat: None
      show ?thesis
      proof (cases "check_cuenta u p db")
        case (Some r)
        with valid old cat check_cuenta_status [OF Some] show ?thesis
          by (simp add: transaccionesRouter_patch_def)
      next
        case cta: None
        show ?thesis
        proof (cases "patch_tx e old i p db")
          case (Inl x)
          with valid old cat cta patch_catch_status [of x] show ?thesis
            by (simp add: transaccionesRouter_patch_def transaction_def)
        next
          case (Inr db')
          with valid old cat cta show ?thesis
            by (simp add: transaccionesRouter_patch_def transaction_def successResponse_def)
        qed
      qed
    qed
  qed
qed

lemma patch_failure_unchanged:
  "snd (snd (transaccionesRouter_patch e u i p db)) \<noteq> 200 \<Longrightarrow>
   fst (transaccionesRouter_patch e u i p db) = db"
  using patch_outcome [of e u i p db] by auto




subsection \<open>Stored balances after a write\<close>

lemma update_cuenta_saldo_Inr:
  assumes "update_cuenta_saldo i s ts db = Inr db'"
  shows "cuentas db' =
           map (\<lambda>c. if c_id c = i then c\<lparr>c_saldo := s, c_updatedAt := ts\<rparr> else c) (cuentas db)"
    and "transacciones db' = transacciones db" and "categorias db' = categorias db"
  using assms by (auto simp add: update_cuenta_saldo_def split: if_splits)

lemma update_cuenta_saldo_nonneg:
  "0 \<le> s \<Longrightarrow> \<exists>db'. update_cuenta_saldo i s ts db = Inr db'"
  by (simp add: update_cuenta_saldo_def)

lemma saldo_of_update:
  assumes "update_cuenta_saldo i s ts db = Inr db'"
  shows "saldo_of j db' = (if j = i then map_option (\<lambda>x. s) (saldo_of i db) else saldo_of j db)"
  using update_cuenta_saldo_Inr(1) [OF assms]
  by (simp add: saldo_of_def select_cuenta_def find_map_saldo find_map_saldo_other
      option.map_comp comp_def)

lemma saldo_of_update_transaccion:
  "update_transaccion i p ts db = Inr db' \<Longrightarrow> saldo_of j db' = saldo_of j db"
  by (auto simp add: update_transaccion_def saldo_of_def select_cuenta_def split: if_splits)

lemma saldo_of_Some:
  "saldo_of a db = Some s \<Longrightarrow> \<exists>c. select_cuenta a db = Some c \<and> c_saldo c = s"
  by (auto simp add: saldo_of_def)


subsection \<open>Outcomes of delete\<close>

lemma find_append_last:
  "\<not> list_ex P xs \<Longrightarrow> Q y \<Longrightarrow> P y \<Longrightarrow> find (\<lambda>x. P x \<and> Q x) (xs @ [y]) = Some y"
  by (induction xs) auto

lemma filter_append_last:
  "\<not> list_ex P xs \<Longrightarrow> P y \<Longrightarrow> filter (\<lambda>x. \<not> P x) (xs @ [y]) = xs"
  by (induction xs) auto

text \<open>Delete of a found transaction whose account row exists and whose reversal passes the
  store's balance check.\<close>

lemma delete_effect:
  assumes t: "select_transaccion u i db = Some t"
    and c: "select_cuenta (t_cuentaId t) db = Some c"
    and floor: "0 \<le> c_saldo c - signed t"
  shows "snd (transaccionesRouter_delete e u i db)
           = (SuccessResponse ''Transaccion eliminada correctamente'', 200)"
    and "saldo_of (t_cuentaId t) (fst (transaccionesRouter_delete e u i db))
           = Some (c_saldo c - signed t)"
    and "\<forall>j. j \<noteq> t_cuentaId t \<longrightarrow>
           saldo_of j (fst (transaccionesRouter_delete e u i db)) = saldo_of j db"
    and "transacciones (fst (transaccionesRouter_delete e u i db))
           = filter (\<lambda>r. t_id r \<noteq> i) (transacciones db)"
proof -
  have s: "(if t_tipo t = Ingreso then c_saldo c - t_monto t else c_saldo c + t_monto t)
             = c_saldo c - signed t"
    by (simp add: signed_def)
  obtain db1 where db1:
    "update_cuenta_saldo (t_cuentaId t) (c_saldo c - signed t) (now e) db = Inr db1"
    using update_cuenta_saldo_nonneg [OF floor] by blast
  have tx: "delete_tx e t i db = delete_transaccion i db1"
    using c db1 by (simp add: delete_tx_def s)
  have res: "transaccionesRouter_delete e u i db
      = (db1\<lparr>transacciones := filter (\<lambda>r. t_id r \<noteq> i) (transacciones db1)\<rparr>,
         SuccessResponse ''Transaccion eliminada correctamente'', 200)"
    using t tx
    by (simp add: transaccionesRouter_delete_def transaction_def delete_transaccion_def
        successResponse_def)
  have keep: "saldo_of j (db1\<lparr>transacciones := xs\<rparr>) = saldo_of j db1" for j xs
    by (simp add: saldo_of_def select_cuenta_def)
  from c have sc: "saldo_of (t_cuentaId t) db = Some (c_saldo c)"
    by (simp add: saldo_of_def)
  show "snd (transaccionesRouter_delete e u i db)
           = (SuccessResponse ''Transaccion eliminada correctamente'', 200)"
    by (simp add: res)
  show "saldo_of (t_cuentaId t) (fst (transaccionesRouter_delete e u i db))
           = Some (c_saldo c - signed t)"
    by (simp add: res keep saldo_of_update [OF db1] sc)
  show "\<forall>j. j \<noteq> t_cuentaId t \<longrightarrow>
           saldo_of j (fst (transaccionesRouter_delete e u i db)) = saldo_of j db"
    by (simp add: res keep saldo_of_update [OF db1])
  show "transacciones (fst (transaccionesRouter_delete e u i db))
           = filter (\<lambda>r. t_id r \<noteq> i) (transacciones db)"
    by (simp add: res update_cuenta_saldo_Inr(2) [OF db1])
qed

text \<open>Create followed by delete of the created transaction.\<close>

lemma post_then_delete:
  assumes post: "transaccionesRouter_post e u b db = (db1, SuccessResponse m, 200)"
    and c: "select_cuenta_activa u (b_cuenta_id b) db = Some c"
    and floor: "0 \<le> c_saldo c"
  shows "snd (transaccionesRouter_delete e' u (nanoid e) db1)
           = (SuccessResponse ''Transaccion eliminada correctamente'', 200)"
    and "saldo_of (b_cuenta_id b) (fst (transaccionesRouter_delete e' u (nanoid e) db1))
           = Some (c_saldo c)"
    and "transacciones (fst (transaccionesRouter_delete e' u (nanoid e) db1)) = transacciones db"
proof -
  let ?t = "\<lparr>t_id = nanoid e, t_cuentaMaestraId = u_cuenta_maestra_id u, t_usuarioId = u_id u,
               t_tipo = b_tipo b, t_monto = b_monto b, t_categoriaId = b_categoria_id b,
               t_cuentaId = b_cuenta_id b, t_fecha = b_fecha b, t_notas = b_notas b,
               t_fotoComprobanteUrl = b_foto_comprobante_url b,
               t_createdAt = now e, t_updatedAt = now e\<rparr>"
  let ?s = "if b_tipo b = Ingreso then c_saldo c + b_monto b else c_saldo c - b_monto b"
  from post_success [OF post] c have tx: "post_tx e u b c db = Inr db1" by simp
  note eff = post_tx_effect [OF tx]
  from post_balance_read [OF post] c
  have bal: "saldo_of (b_cuenta_id b) db1 = Some ?s" by simp
  then obtain c1 where c1: "select_cuenta (b_cuenta_id b) db1 = Some c1" "c_saldo c1 = ?s"
    using saldo_of_Some by blast
  have t: "select_transaccion u (nanoid e) db1 = Some ?t"
    unfolding select_transaccion_def eff(1)
    using find_append_last [of "\<lambda>r. t_id r = nanoid e" "transacciones db"
        "\<lambda>r. t_cuentaMaestraId r = u_cuenta_maestra_id u" ?t] eff(4)
    by simp
  have restored: "c_saldo c1 - signed ?t = c_saldo c"
    by (simp add: c1 signed_def)
  have acct: "select_cuenta (t_cuentaId ?t) db1 = Some c1" using c1 by simp
  have fl: "0 \<le> c_saldo c1 - signed ?t" using floor restored by simp
  show "snd (transaccionesRouter_delete e' u (nanoid e) db1)
           = (SuccessResponse ''Transaccion eliminada correctamente'', 200)"
    using delete_effect(1) [OF t acct fl] .
  show "saldo_of (b_cuenta_id b) (fst (transaccionesRouter_delete e' u (nanoid e) db1))
           = Some (c_saldo c)"
    using delete_effect(2) [OF t acct fl, of e'] restored by simp
  have "filter (\<lambda>r. t_id r \<noteq> nanoid e) (transacciones db @ [?t]) = transacciones db"
    using filter_append_last [of "\<lambda>r. t_id r = nanoid e" "transacciones db" ?t] eff(4)
    by simp
  then show "transacciones (fst (transaccionesRouter_delete e' u (nanoid e) db1))
      = transacciones db"
    using delete_effect(4) [OF t acct fl, of e'] eff(1) by simp
qed

text \<open>Delete of a found transaction whose reversal the store's balance check rejects.\<close>

lemma delete_rejected:
  assumes t: "select_transaccion u i db = Some t"
    and c: "select_cuenta (t_cuentaId t) db = Some c"
    and negative: "c_saldo c - signed t < 0"
  shows "transaccionesRouter_delete e u i db
           = (db, ErrorResponse ''ERR_INTERNAL'' ''Error al eliminar transaccion'', 500)"
proof -
  have s: "(if t_tipo t = Ingreso then c_saldo c - t_monto t else c_saldo c + t_monto t)
             = c_saldo c - signed t"
    by (simp add: signed_def)
  from find_Some_mem [OF c [unfolded select_cuenta_def]]
  have "list_ex (\<lambda>r. c_id r = t_cuentaId t) (cuentas db)"
    by (auto simp add: list_ex_iff)
  with negative have "update_cuenta_saldo (t_cuentaId t) (c_saldo c - signed t) (now e) db
      = Inl (Error ''CHECK constraint failed: saldo_positivo'')"
    by (simp add: update_cuenta_saldo_def)
  with c have "delete_tx e t i db = Inl (Error ''CHECK constraint failed: saldo_positivo'')"
    by (simp add: delete_tx_def s)
  with t show ?thesis
    by (simp add: transaccionesRouter_delete_def transaction_def makeError_def)
qed

subsection \<open>The store with a spent income, and the validation error of update\<close>

lemma spent_store_eq:
  "spent_store =
     store [(cuenta_row ''A'' 10)\<lparr>c_updatedAt := ''t2''\<rparr>]
       [(tx_row ''t1'' Ingreso 50 ''salario'' ''A'')\<lparr>t_createdAt := ''t1'', t_updatedAt := ''t1''\<rparr>,
        (tx_row ''t2'' Gasto 40 ''food'' ''A'')\<lparr>t_createdAt := ''t2'', t_updatedAt := ''t2''\<rparr>]"
  by (simp add: spent_store_def run_def eval_defs)

text \<open>Where the reversal is accepted, the insufficient balance is reported as a validation
  error and nothing is written.\<close>

lemma patch_gasto_insufficient:
  assumes valid: "updateTransaccionSchema e p"
    and old: "select_transaccion u i db = Some old"
    and checks: "check_categoria u old p db = None" "check_cuenta u p db = None"
    and touched: "truthy_num (p_monto p) \<or> truthy_tipo (p_tipo p) \<or> truthy_str (p_cuenta_id p)"
    and reverted: "revert_old e old db = Inr db1"
    and target: "select_cuenta (or_str (p_cuenta_id p) (t_cuentaId old)) db1 = Some cn"
    and gasto: "or_tipo (p_tipo p) (t_tipo old) = Gasto"
    and negative: "c_saldo cn - or_num (p_monto p) (t_monto old) < 0"
  shows "transaccionesRouter_patch e u i p db
           = (db, ErrorResponse ''ERR_VALIDATION'' ''Saldo insuficiente en la cuenta'', 400)"
proof -
  have "apply_new e old p db1 = Inl (Error ''Saldo insuficiente en la cuenta'')"
    using target gasto negative by (simp add: apply_new_def Let_def)
  then have "patch_tx e old i p db = Inl (Error ''Saldo insuficiente en la cuenta'')"
    using touched reverted by (simp add: patch_tx_def)
  then show ?thesis
    using valid old checks
    by (simp add: transaccionesRouter_patch_def transaction_def patch_catch_def makeError_def)
qed

subsection \<open>Contributions under the three changes of the transaction table\<close>







subsection \<open>Balances under the writes of an atomic unit\<close>






subsection \<open>The row an update writes\<close>







subsection \<open>Each handler keeps the ledger relation\<close>






text \<open>Opening an account: its opening balance is the balance it is created with (less the
  contributions of transactions that already name its identifier, none in a store whose
  foreign keys hold).\<close>

lemma ledger_cuentasRouter_post:
  assumes led: "ledger base db"
    and post: "cuentasRouter_post e u a db = (db', SuccessResponse m, 200)"
  shows "ledger
           (base(nanoid e := (case a_saldo a of None \<Rightarrow> 0 | Some s \<Rightarrow> s)
                               - contrib (nanoid e) (transacciones db))) db'"
proof -
  let ?c = "\<lparr>c_id = nanoid e, c_cuentaMaestraId = u_cuenta_maestra_id u, c_nombre = a_nombre a,
            c_saldo = (case a_saldo a of None \<Rightarrow> 0 | Some s \<Rightarrow> s),
            c_tipo = (case a_tipo a of None \<Rightarrow> ''efectivo'' | Some x \<Rightarrow> x),
            c_color = (case a_color a of None \<Rightarrow> ''#3B82F6'' | Some x \<Rightarrow> x),
            c_icono = (case a_icono a of None \<Rightarrow> ''Wallet'' | Some x \<Rightarrow> x),
            c_activa = True, c_createdAt = now e, c_updatedAt = now e\<rparr>"
  from post have ins: "insert_cuenta ?c db = Inr db'"
    by (auto simp add: cuentasRouter_post_def makeError_def successResponse_def
        split: if_splits sum.splits)
  then have fresh: "\<forall>r \<in> set (cuentas db). c_id r \<noteq> nanoid e"
    and db': "db' = db\<lparr>cuentas := cuentas db @ [?c]\<rparr>"
    by (auto simp add: insert_cuenta_def list_ex_iff split: if_splits)
  from led fresh show ?thesis
    by (auto simp add: ledger_def db')
qed

subsection \<open>Create\<close>

text \<open>
  C3. Creating an expense whose amount is strictly greater than the balance of the account
  the handler reads is rejected and leaves the store (account balances and transaction
  table) unchanged; the reply is \<open>ERR_VALIDATION\<close> with status 400 whenever the referenced
  category is found (a missing category is reported first, as \<open>ERR_NOT_FOUND\<close>). Equivalently,
  the create of an expense succeeds only when the amount is at most the balance.
\<close>

theorem post_gasto_insufficient:
  assumes "b_tipo b = Gasto"
    and "select_cuenta_activa u (b_cuenta_id b) db = Some c"
  shows "(c_saldo c < b_monto b \<longrightarrow>
            fst (transaccionesRouter_post e u b db) = db \<and>
            snd (snd (transaccionesRouter_post e u b db)) \<noteq> 200) \<and>
         (c_saldo c < b_monto b \<and> select_categoria u (b_categoria_id b) db \<noteq> None \<longrightarrow>
            (\<exists>m. snd (transaccionesRouter_post e u b db) = (ErrorResponse ''ERR_VALIDATION'' m, 400))) \<and>
         (snd (snd (transaccionesRouter_post e u b db)) = 200 \<longrightarrow> b_monto b \<le> c_saldo c)"
proof (intro conjI impI)
  assume "c_saldo c < b_monto b"
  with assms post_outcome [of e u b db]
  show "fst (transaccionesRouter_post e u b db) = db"
    and "snd (snd (transaccionesRouter_post e u b db)) \<noteq> 200" by auto
next
  assume "snd (snd (transaccionesRouter_post e u b db)) = 200"
  with assms post_outcome [of e u b db] show "b_monto b \<le> c_saldo c" by auto
next
  assume a: "c_saldo c < b_monto b \<and> select_categoria u (b_categoria_id b) db \<noteq> None"
  then obtain g where g: "select_categoria u (b_categoria_id b) db = Some g" by auto
  show "\<exists>m. snd (transaccionesRouter_post e u b db) = (ErrorResponse ''ERR_VALIDATION'' m, 400)"
  proof (cases "createTransaccionSchema e b")
    case False
    then show ?thesis by (simp add: transaccionesRouter_post_def makeError_def)
  next
    case True
    with assms a g show ?thesis
      by (cases "g_tipo g = b_tipo b") (simp_all add: transaccionesRouter_post_def makeError_def)
  qed
qed

theorem post_gasto_insufficient_witness:
  "b_tipo (new_tx Gasto 80 ''food'' ''A'') = Gasto \<and>
   select_cuenta_activa usuario (b_cuenta_id (new_tx Gasto 80 ''food'' ''A''))
       (store [cuenta_row ''A'' 70] [tx_row ''t1'' Gasto 30 ''food'' ''A''])
     = Some (cuenta_row ''A'' 70) \<and>
   transaccionesRouter_post (env_at ''t2'' ''t2'') usuario (new_tx Gasto 80 ''food'' ''A'')
       (store [cuenta_row ''A'' 70] [tx_row ''t1'' Gasto 30 ''food'' ''A''])
     = (store [cuenta_row ''A'' 70] [tx_row ''t1'' Gasto 30 ''food'' ''A''],
        ErrorResponse ''ERR_VALIDATION'' ''Saldo insuficiente en la cuenta'', 400)"
proof -
  let ?b = "new_tx Gasto 80 ''food'' ''A''"
  let ?db = "store [cuenta_row ''A'' 70] [tx_row ''t1'' Gasto 30 ''food'' ''A'']"
  have h1: "b_tipo ?b = Gasto" by (simp add: fixture_defs)
  have h2: "select_cuenta_activa usuario (b_cuenta_id ?b) ?db = Some (cuenta_row ''A'' 70)"
    by (simp add: select_defs fixture_defs)
  have h3: "c_saldo (cuenta_row ''A'' 70) < b_monto ?b" by (simp add: fixture_defs)
  have h4: "select_categoria usuario (b_categoria_id ?b) ?db \<noteq> None"
    by (simp add: select_defs fixture_defs)
  from post_gasto_insufficient [OF h1 h2, of "env_at ''t2'' ''t2''"] h3 h4
  obtain m where
    "fst (transaccionesRouter_post (env_at ''t2'' ''t2'') usuario ?b ?db) = ?db"
    "snd (transaccionesRouter_post (env_at ''t2'' ''t2'') usuario ?b ?db)
       = (ErrorResponse ''ERR_VALIDATION'' m, 400)"
    by blast
  moreover have "snd (transaccionesRouter_post (env_at ''t2'' ''t2'') usuario ?b ?db)
       = (ErrorResponse ''ERR_VALIDATION'' ''Saldo insuficiente en la cuenta'', 400)"
    by (simp add: transaccionesRouter_post_def schema_defs select_defs fixture_defs makeError_def)
  ultimately show ?thesis using h1 h2 by (metis prod.collapse)
qed

text \<open>
  C4. Every successful create leaves the referenced account with the balance the handler
  read plus the amount (income) or minus the amount (expense), and the new transaction row
  appended to the table; both writes belong to the one atomic unit, so they appear together.
\<close>

theorem post_success_balance:
  assumes "transaccionesRouter_post e u b db = (db', SuccessResponse m, 200)"
  shows "\<exists>c. select_cuenta_activa u (b_cuenta_id b) db = Some c \<and>
           saldo_of (b_cuenta_id b) db' =
             Some (if b_tipo b = Ingreso then c_saldo c + b_monto b else c_saldo c - b_monto b) \<and>
           transacciones db' = transacciones db @
             [\<lparr>t_id = nanoid e, t_cuentaMaestraId = u_cuenta_maestra_id u, t_usuarioId = u_id u,
               t_tipo = b_tipo b, t_monto = b_monto b, t_categoriaId = b_categoria_id b,
               t_cuentaId = b_cuenta_id b, t_fecha = b_fecha b, t_notas = b_notas b,
               t_fotoComprobanteUrl = b_foto_comprobante_url b,
               t_createdAt = now e, t_updatedAt = now e\<rparr>]"
proof -
  from post_success [OF assms] obtain c where
    c: "select_cuenta_activa u (b_cuenta_id b) db = Some c" and
    tx: "post_tx e u b c db = Inr db'"
    by blast
  with post_balance_read [OF assms] post_tx_effect(1) [OF tx] show ?thesis by simp
qed

theorem post_success_balance_witness:
  "transaccionesRouter_post (env_at ''t2'' ''t2'') usuario (new_tx Ingreso 50 ''salario'' ''A'')
       (store [cuenta_row ''A'' 70] [])
     = (store [(cuenta_row ''A'' 120)\<lparr>c_updatedAt := ''t2''\<rparr>]
          [(tx_row ''t2'' Ingreso 50 ''salario'' ''A'')\<lparr>t_createdAt := ''t2'', t_updatedAt := ''t2''\<rparr>],
        SuccessResponse ''Transaccion creada correctamente'', 200) \<and>
   saldo_of ''A'' (store [(cuenta_row ''A'' 120)\<lparr>c_updatedAt := ''t2''\<rparr>]
          [(tx_row ''t2'' Ingreso 50 ''salario'' ''A'')\<lparr>t_createdAt := ''t2'', t_updatedAt := ''t2''\<rparr>])
     = Some (70 + 50)"
proof -
  let ?db = "store [cuenta_row ''A'' 70] []"
  let ?db' = "store [(cuenta_row ''A'' 120)\<lparr>c_updatedAt := ''t2''\<rparr>]
          [(tx_row ''t2'' Ingreso 50 ''salario'' ''A'')\<lparr>t_createdAt := ''t2'', t_updatedAt := ''t2''\<rparr>]"
  let ?b = "new_tx Ingreso 50 ''salario'' ''A''"
  have h: "transaccionesRouter_post (env_at ''t2'' ''t2'') usuario ?b ?db
     = (?db', SuccessResponse ''Transaccion creada correctamente'', 200)"
    by (simp add: transaccionesRouter_post_def post_tx_def schema_defs select_defs write_defs
        fixture_defs successResponse_def)
  have c: "select_cuenta_activa usuario (b_cuenta_id ?b) ?db = Some (cuenta_row ''A'' 70)"
    by (simp add: select_defs fixture_defs)
  from post_success_balance [OF h] c
  have "saldo_of (b_cuenta_id ?b) ?db' = Some (c_saldo (cuenta_row ''A'' 70) + b_monto ?b)"
    by (simp add: fixture_defs)
  then show ?thesis using h by (simp add: fixture_defs)
qed



text \<open>
  C6. A create that fails a precondition writes nothing. For a body that passes the schema,
  in the order of the handler's checks: a missing or inactive category gives
  \<open>ERR_NOT_FOUND\<close> (404), a kind different from the category's gives \<open>ERR_VALIDATION\<close> (400),
  a missing or inactive account gives \<open>ERR_NOT_FOUND\<close> (404), an expense above the balance
  gives \<open>ERR_VALIDATION\<close> (400); and whatever reply is not a success leaves the store as it
  was.
\<close>

theorem post_precondition_failures:
  assumes "createTransaccionSchema e b"
  shows "(select_categoria u (b_categoria_id b) db = None \<longrightarrow>
            transaccionesRouter_post e u b db =
              (db, ErrorResponse ''ERR_NOT_FOUND'' ''Categoria no encontrada o inactiva'', 404)) \<and>
         (\<forall>g. select_categoria u (b_categoria_id b) db = Some g \<and> g_tipo g \<noteq> b_tipo b \<longrightarrow>
            transaccionesRouter_post e u b db =
              (db, ErrorResponse ''ERR_VALIDATION''
                     ''El tipo de transaccion no coincide con el tipo de categoria'', 400)) \<and>
         (\<forall>g. select_categoria u (b_categoria_id b) db = Some g \<and> g_tipo g = b_tipo b \<and>
               select_cuenta_activa u (b_cuenta_id b) db = None \<longrightarrow>
            transaccionesRouter_post e u b db =
              (db, ErrorResponse ''ERR_NOT_FOUND'' ''Cuenta no encontrada o inactiva'', 404)) \<and>
         (\<forall>g c. select_categoria u (b_categoria_id b) db = Some g \<and> g_tipo g = b_tipo b \<and>
               select_cuenta_activa u (b_cuenta_id b) db = Some c \<and>
               b_tipo b = Gasto \<and> c_saldo c < b_monto b \<longrightarrow>
            transaccionesRouter_post e u b db =
              (db, ErrorResponse ''ERR_VALIDATION'' ''Saldo insuficiente en la cuenta'', 400)) \<and>
         (snd (snd (transaccionesRouter_post e u b db)) \<noteq> 200 \<longrightarrow>
            fst (transaccionesRouter_post e u b db) = db)"
  using assms post_failure_unchanged [of e u b db]
  by (simp add: transaccionesRouter_post_def makeError_def)




theorem post_precondition_failures_witness:
  "createTransaccionSchema (env_at ''t2'' ''t2'') (new_tx Gasto 80 ''nope'' ''A'') \<and>
   transaccionesRouter_post (env_at ''t2'' ''t2'') usuario (new_tx Gasto 80 ''nope'' ''A'')
       (store [cuenta_row ''A'' 70] [])
     = (store [cuenta_row ''A'' 70] [],
        ErrorResponse ''ERR_NOT_FOUND'' ''Categoria no encontrada o inactiva'', 404) \<and>
   transaccionesRouter_post (env_at ''t2'' ''t2'') usuario (new_tx Gasto 80 ''salario'' ''A'')
       (store [cuenta_row ''A'' 70] [])
     = (store [cuenta_row ''A'' 70] [],
        ErrorResponse ''ERR_VALIDATION''
          ''El tipo de transaccion no coincide con el tipo de categoria'', 400) \<and>
   transaccionesRouter_post (env_at ''t2'' ''t2'') usuario (new_tx Gasto 80 ''food'' ''Z'')
       (store [cuenta_row ''A'' 70] [])
     = (store [cuenta_row ''A'' 70] [],
        ErrorResponse ''ERR_NOT_FOUND'' ''Cuenta no encontrada o inactiva'', 404) \<and>
   transaccionesRouter_post (env_at ''t2'' ''t2'') usuario (new_tx Gasto 80 ''food'' ''A'')
       (store [cuenta_row ''A'' 70] [])
     = (store [cuenta_row ''A'' 70] [],
        ErrorResponse ''ERR_VALIDATION'' ''Saldo insuficiente en la cuenta'', 400)"
proof -
  let ?e = "env_at ''t2'' ''t2''"
  let ?db = "store [cuenta_row ''A'' 70] []"
  have v1: "createTransaccionSchema ?e (new_tx Gasto 80 ''nope'' ''A'')"
    and v2: "createTransaccionSchema ?e (new_tx Gasto 80 ''salario'' ''A'')"
    and v3: "createTransaccionSchema ?e (new_tx Gasto 80 ''food'' ''Z'')"
    and v4: "createTransaccionSchema ?e (new_tx Gasto 80 ''food'' ''A'')"
    by (simp_all add: schema_defs fixture_defs)
  have "transaccionesRouter_post ?e usuario (new_tx Gasto 80 ''nope'' ''A'') ?db
     = (?db, ErrorResponse ''ERR_NOT_FOUND'' ''Categoria no encontrada o inactiva'', 404)"
    using post_precondition_failures [OF v1, of usuario ?db]
    by (simp add: select_defs fixture_defs)
  moreover have "transaccionesRouter_post ?e usuario (new_tx Gasto 80 ''salario'' ''A'') ?db
     = (?db, ErrorResponse ''ERR_VALIDATION''
          ''El tipo de transaccion no coincide con el tipo de categoria'', 400)"
    using post_precondition_failures [OF v2, of usuario ?db]
    by (simp add: select_defs fixture_defs)
  moreover have "transaccionesRouter_post ?e usuario (new_tx Gasto 80 ''food'' ''Z'') ?db
     = (?db, ErrorResponse ''ERR_NOT_FOUND'' ''Cuenta no encontrada o inactiva'', 404)"
    using post_precondition_failures [OF v3, of usuario ?db]
    by (simp add: select_defs fixture_defs)
  moreover have "transaccionesRouter_post ?e usuario (new_tx Gasto 80 ''food'' ''A'') ?db
     = (?db, ErrorResponse ''ERR_VALIDATION'' ''Saldo insuficiente en la cuenta'', 400)"
    using post_precondition_failures [OF v4, of usuario ?db]
    by (simp add: select_defs fixture_defs)
  ultimately show ?thesis using v1 by blast
qed

subsection \<open>Update\<close>



text \<open>
  C9. An update that moves an expense of 30 from its origin account (stored balance 70,
  after the 30 had been deducted from 100) to a different account with balance 200, keeping
  kind and amount, succeeds; the origin account's balance goes back to 100 and the other
  account's balance becomes 170.
\<close>

theorem patch_move_gasto:
  assumes valid: "updateTransaccionSchema e p"
    and old: "select_transaccion u i db = Some old"
    and kind: "t_tipo old = Gasto" "or_tipo (p_tipo p) (t_tipo old) = Gasto"
    and amount: "t_monto old = 30" "or_num (p_monto p) (t_monto old) = 30"
    and move: "p_cuenta_id p = Some B" "B \<noteq> t_cuentaId old"
    and origin: "saldo_of (t_cuentaId old) db = Some 70"
    and target: "saldo_of B db = Some 200"
    and checks: "check_categoria u old p db = None" "check_cuenta u p db = None"
  shows "snd (transaccionesRouter_patch e u i p db)
           = (SuccessResponse ''Transaccion actualizada correctamente'', 200) \<and>
         saldo_of (t_cuentaId old) (fst (transaccionesRouter_patch e u i p db)) = Some 100 \<and>
         saldo_of B (fst (transaccionesRouter_patch e u i p db)) = Some 170"
proof -
  from valid move have B: "B \<noteq> []" by (simp add: updateTransaccionSchema_def)
  from origin obtain ca where ca: "select_cuenta (t_cuentaId old) db = Some ca" "c_saldo ca = 70"
    using saldo_of_Some by blast
  obtain db1 where db1: "update_cuenta_saldo (t_cuentaId old) 100 (now e) db = Inr db1"
    using update_cuenta_saldo_nonneg [of 100] by force
  have rev: "revert_old e old db = Inr db1"
    using ca kind amount db1 by (simp add: revert_old_def)
  have s1: "saldo_of (t_cuentaId old) db1 = Some 100" "saldo_of B db1 = Some 200"
    using saldo_of_update [OF db1] origin target move by simp_all
  from s1(2) obtain cb where cb: "select_cuenta B db1 = Some cb" "c_saldo cb = 200"
    using saldo_of_Some by blast
  obtain db2 where db2: "update_cuenta_saldo B 170 (now e) db1 = Inr db2"
    using update_cuenta_saldo_nonneg [of 170] by force
  have app: "apply_new e old p db1 = Inr db2"
    using cb kind amount move B db2 by (simp add: apply_new_def)
  have s2: "saldo_of (t_cuentaId old) db2 = Some 100" "saldo_of B db2 = Some 170"
    using saldo_of_update [OF db2] s1 move by simp_all
  from valid obtain db3 where db3: "update_transaccion i p (now e) db2 = Inr db3"
    by (auto simp add: update_transaccion_def updateTransaccionSchema_def)
  have ptx: "patch_tx e old i p db = Inr db3"
    using rev app db3 move B by (simp add: patch_tx_def)
  have res: "transaccionesRouter_patch e u i p db
      = (db3, SuccessResponse ''Transaccion actualizada correctamente'', 200)"
    using valid old checks ptx
    by (simp add: transaccionesRouter_patch_def transaction_def successResponse_def)
  show ?thesis
    using res s2 saldo_of_update_transaccion [OF db3] by simp
qed

theorem patch_move_gasto_witness:
  "transaccionesRouter_patch (env_at ''t3'' ''n3'') usuario ''t1''
       (no_change\<lparr>p_cuenta_id := Some ''B''\<rparr>)
       (store [cuenta_row ''A'' 70, cuenta_row ''B'' 200] [tx_row ''t1'' Gasto 30 ''food'' ''A''])
     = (store [(cuenta_row ''A'' 100)\<lparr>c_updatedAt := ''t3''\<rparr>,
               (cuenta_row ''B'' 170)\<lparr>c_updatedAt := ''t3''\<rparr>]
          [(tx_row ''t1'' Gasto 30 ''food'' ''A'')\<lparr>t_updatedAt := ''t3''\<rparr>],
        SuccessResponse ''Transaccion actualizada correctamente'', 200) \<and>
   saldo_of ''A'' (fst (transaccionesRouter_patch (env_at ''t3'' ''n3'') usuario ''t1''
       (no_change\<lparr>p_cuenta_id := Some ''B''\<rparr>)
       (store [cuenta_row ''A'' 70, cuenta_row ''B'' 200] [tx_row ''t1'' Gasto 30 ''food'' ''A''])))
     = Some 100 \<and>
   saldo_of ''B'' (fst (transaccionesRouter_patch (env_at ''t3'' ''n3'') usuario ''t1''
       (no_change\<lparr>p_cuenta_id := Some ''B''\<rparr>)
       (store [cuenta_row ''A'' 70, cuenta_row ''B'' 200] [tx_row ''t1'' Gasto 30 ''food'' ''A''])))
     = Some 170"
proof -
  let ?e = "env_at ''t3'' ''n3''"
  let ?p = "no_change\<lparr>p_cuenta_id := Some ''B''\<rparr>"
  let ?old = "tx_row ''t1'' Gasto 30 ''food'' ''A''"
  let ?db = "store [cuenta_row ''A'' 70, cuenta_row ''B'' 200] [?old]"
  have valid: "updateTransaccionSchema ?e ?p" by (simp add: schema_defs fixture_defs)
  have old: "select_transaccion usuario ''t1'' ?db = Some ?old"
    by (simp add: select_defs fixture_defs)
  have kind: "t_tipo ?old = Gasto" "or_tipo (p_tipo ?p) (t_tipo ?old) = Gasto"
    by (simp_all add: fixture_defs)
  have amount: "t_monto ?old = 30" "or_num (p_monto ?p) (t_monto ?old) = 30"
    by (simp_all add: fixture_defs)
  have move: "p_cuenta_id ?p = Some ''B''" "''B'' \<noteq> t_cuentaId ?old"
    by (simp_all add: fixture_defs)
  have origin: "saldo_of (t_cuentaId ?old) ?db = Some 70"
    by (simp add: saldo_of_def select_defs fixture_defs)
  have target: "saldo_of ''B'' ?db = Some 200"
    by (simp add: saldo_of_def select_defs fixture_defs)
  have checks: "check_categoria usuario ?old ?p ?db = None" "check_cuenta usuario ?p ?db = None"
    by (simp_all add: check_categoria_def check_cuenta_def select_defs fixture_defs)
  have A: "t_cuentaId ?old = ''A''" by (simp add: fixture_defs)
  have run: "transaccionesRouter_patch ?e usuario ''t1'' ?p ?db
     = (store [(cuenta_row ''A'' 100)\<lparr>c_updatedAt := ''t3''\<rparr>,
               (cuenta_row ''B'' 170)\<lparr>c_updatedAt := ''t3''\<rparr>]
          [(tx_row ''t1'' Gasto 30 ''food'' ''A'')\<lparr>t_updatedAt := ''t3''\<rparr>],
        SuccessResponse ''Transaccion actualizada correctamente'', 200)"
    by (simp add: transaccionesRouter_patch_def patch_tx_def revert_old_def apply_new_def
        check_categoria_def check_cuenta_def
        schema_defs select_defs write_defs fixture_defs successResponse_def Let_def)
  from patch_move_gasto [OF valid old kind amount move origin target checks] run
  show ?thesis unfolding A by blast
qed

text \<open>
  C2 on the code. The claim asks for \<open>ERR_VALIDATION\<close> (400) whenever the new kind is
  expense and the new delta would drive the target account negative. The handler reverts
  the old delta first, and when the old transaction is an income larger than the current
  balance that write is rejected by the store's check \<open>saldo_positivo\<close> before the handler's
  own test is reached: the unit aborts, the store is unchanged, but the reply is
  \<open>ERR_INTERNAL\<close> (500). Here the income \<open>t1\<close> of 50 on an account with balance 10 is
  turned into an expense of the expense category.
\<close>

theorem patch_reversal_rejected_by_store:
  "saldo_of ''A'' spent_store = Some 10 \<and>
   map_option t_tipo (select_transaccion usuario ''t1'' spent_store) = Some Ingreso \<and>
   map_option t_monto (select_transaccion usuario ''t1'' spent_store) = Some 50 \<and>
   transaccionesRouter_patch (env_at ''t3'' ''n3'') usuario ''t1''
       (no_change\<lparr>p_tipo := Some Gasto, p_categoria_id := Some ''food''\<rparr>) spent_store
     = (spent_store, ErrorResponse ''ERR_INTERNAL'' ''Error al actualizar transaccion'', 500)"
  by (simp add: spent_store_eq saldo_of_def eval_defs)

text \<open>
  C7 on the code. An update that supplies a kind but no category is not checked against the
  category of the transaction: the expense \<open>t1\<close> of category \<open>food\<close> becomes an income
  while its category stays an expense category, and the reply is a success.
\<close>

theorem patch_tipo_only_breaks_kind:
  "kind_matches (store [cuenta_row ''A'' 70] [tx_row ''t1'' Gasto 30 ''food'' ''A'']) \<and>
   transaccionesRouter_patch (env_at ''t3'' ''n3'') usuario ''t1''
       (no_change\<lparr>p_tipo := Some Ingreso\<rparr>)
       (store [cuenta_row ''A'' 70] [tx_row ''t1'' Gasto 30 ''food'' ''A''])
     = (store [(cuenta_row ''A'' 130)\<lparr>c_updatedAt := ''t3''\<rparr>]
          [(tx_row ''t1'' Ingreso 30 ''food'' ''A'')\<lparr>t_updatedAt := ''t3''\<rparr>],
        SuccessResponse ''Transaccion actualizada correctamente'', 200) \<and>
   \<not> kind_matches (store [(cuenta_row ''A'' 130)\<lparr>c_updatedAt := ''t3''\<rparr>]
          [(tx_row ''t1'' Ingreso 30 ''food'' ''A'')\<lparr>t_updatedAt := ''t3''\<rparr>])"
  by (simp add: kind_matches_def eval_defs)


subsection \<open>Delete\<close>

text \<open>
  C5, as stated, fails: the handler has no balance-floor check of its own, but the store's
  check \<open>saldo_positivo\<close> rejects the reversal of an income that exceeds the current
  balance. With balance 10 left after an income of 50 and an expense of 40, deleting the
  income is answered \<open>ERR_INTERNAL\<close> (500) and nothing is deleted or reverted.
\<close>

theorem delete_ingreso_counterexample:
  "saldo_of ''A'' spent_store = Some 10 \<and>
   map_option t_monto (select_transaccion usuario ''t1'' spent_store) = Some 50 \<and>
   transaccionesRouter_delete (env_at ''t3'' ''t3'') usuario ''t1'' spent_store
     = (spent_store, ErrorResponse ''ERR_INTERNAL'' ''Error al eliminar transaccion'', 500)"
  by (simp add: spent_store_eq saldo_of_def eval_defs)

text \<open>
  C5, amended. For a persisted transaction whose account row exists, delete is decided by the
  store's balance check alone (the handler applies no floor of its own). If the reverted
  balance is not negative, delete succeeds: it reverts the signed contribution on that
  account, leaves every other balance alone and removes the row, in one atomic unit. If the
  reverted balance is negative, the reply is \<open>ERR_INTERNAL\<close> (500) and the store is exactly as
  it was, the row included. In particular, after a successful create on an account whose
  balance was not negative, deleting the created transaction succeeds, puts the balance
  back to its value before the create and the transaction table back to what it was. The
  arithmetic is exact here; on the code the restored balance is the floating-point result
  of adding and subtracting the amount, equal to the old balance within its precision.
\<close>

theorem delete_reverts:
  "(\<forall>t c. select_transaccion u i db = Some t \<and>
          select_cuenta (t_cuentaId t) db = Some c \<and> 0 \<le> c_saldo c - signed t \<longrightarrow>
      snd (transaccionesRouter_delete e u i db)
        = (SuccessResponse ''Transaccion eliminada correctamente'', 200) \<and>
      saldo_of (t_cuentaId t) (fst (transaccionesRouter_delete e u i db))
        = Some (c_saldo c - signed t) \<and>
      (\<forall>j. j \<noteq> t_cuentaId t \<longrightarrow>
           saldo_of j (fst (transaccionesRouter_delete e u i db)) = saldo_of j db) \<and>
      transacciones (fst (transaccionesRouter_delete e u i db))
        = filter (\<lambda>r. t_id r \<noteq> i) (transacciones db)) \<and>
   (\<forall>t c. select_transaccion u i db = Some t \<and>
          select_cuenta (t_cuentaId t) db = Some c \<and> c_saldo c - signed t < 0 \<longrightarrow>
      transaccionesRouter_delete e u i db
        = (db, ErrorResponse ''ERR_INTERNAL'' ''Error al eliminar transaccion'', 500)) \<and>
   (\<forall>db1 m c. transaccionesRouter_post e0 u b db = (db1, SuccessResponse m, 200) \<and>
          select_cuenta_activa u (b_cuenta_id b) db = Some c \<and> 0 \<le> c_saldo c \<longrightarrow>
      snd (transaccionesRouter_delete e u (nanoid e0) db1)
        = (SuccessResponse ''Transaccion eliminada correctamente'', 200) \<and>
      saldo_of (b_cuenta_id b) (fst (transaccionesRouter_delete e u (nanoid e0) db1))
        = Some (c_saldo c) \<and>
      transacciones (fst (transaccionesRouter_delete e u (nanoid e0) db1)) = transacciones db)"
proof (intro conjI allI impI)
  fix t c
  assume h: "select_transaccion u i db = Some t \<and>
          select_cuenta (t_cuentaId t) db = Some c \<and> 0 \<le> c_saldo c - signed t"
  then have t: "select_transaccion u i db = Some t"
    and c: "select_cuenta (t_cuentaId t) db = Some c"
    and f: "0 \<le> c_saldo c - signed t" by simp_all
  show "snd (transaccionesRouter_delete e u i db)
        = (SuccessResponse ''Transaccion eliminada correctamente'', 200)"
    by (rule delete_effect(1) [OF t c f])
  show "saldo_of (t_cuentaId t) (fst (transaccionesRouter_delete e u i db))
        = Some (c_saldo c - signed t)"
    by (rule delete_effect(2) [OF t c f])
  show "transacciones (fst (transaccionesRouter_delete e u i db))
        = filter (\<lambda>r. t_id r \<noteq> i) (transacciones db)"
    by (rule delete_effect(4) [OF t c f])
  fix j assume "j \<noteq> t_cuentaId t"
  with delete_effect(3) [OF t c f, of e]
  show "saldo_of j (fst (transaccionesRouter_delete e u i db)) = saldo_of j db" by simp
next
  fix t c
  assume h: "select_transaccion u i db = Some t \<and>
          select_cuenta (t_cuentaId t) db = Some c \<and> c_saldo c - signed t < 0"
  then show "transaccionesRouter_delete e u i db
        = (db, ErrorResponse ''ERR_INTERNAL'' ''Error al eliminar transaccion'', 500)"
    using delete_rejected [of u i db t c e] by simp
next
  fix db1 m c
  assume h: "transaccionesRouter_post e0 u b db = (db1, SuccessResponse m, 200) \<and>
          select_cuenta_activa u (b_cuenta_id b) db = Some c \<and> 0 \<le> c_saldo c"
  then have p: "transaccionesRouter_post e0 u b db = (db1, SuccessResponse m, 200)"
    and c: "select_cuenta_activa u (b_cuenta_id b) db = Some c"
    and f: "0 \<le> c_saldo c" by simp_all
  show "snd (transaccionesRouter_delete e u (nanoid e0) db1)
        = (SuccessResponse ''Transaccion eliminada correctamente'', 200)"
    by (rule post_then_delete(1) [OF p c f])
  show "saldo_of (b_cuenta_id b) (fst (transaccionesRouter_delete e u (nanoid e0) db1))
        = Some (c_saldo c)"
    by (rule post_then_delete(2) [OF p c f])
  show "transacciones (fst (transaccionesRouter_delete e u (nanoid e0) db1)) = transacciones db"
    by (rule post_then_delete(3) [OF p c f])
qed

theorem delete_reverts_witness:
  "transaccionesRouter_post (env_at ''t2'' ''t2'') usuario (new_tx Ingreso 50 ''salario'' ''A'')
       (store [cuenta_row ''A'' 70] [])
     = (store [(cuenta_row ''A'' 120)\<lparr>c_updatedAt := ''t2''\<rparr>]
          [(tx_row ''t2'' Ingreso 50 ''salario'' ''A'')\<lparr>t_createdAt := ''t2'', t_updatedAt := ''t2''\<rparr>],
        SuccessResponse ''Transaccion creada correctamente'', 200) \<and>
   snd (transaccionesRouter_delete (env_at ''t3'' ''t3'') usuario ''t2''
       (store [(cuenta_row ''A'' 120)\<lparr>c_updatedAt := ''t2''\<rparr>]
          [(tx_row ''t2'' Ingreso 50 ''salario'' ''A'')\<lparr>t_createdAt := ''t2'', t_updatedAt := ''t2''\<rparr>]))
     = (SuccessResponse ''Transaccion eliminada correctamente'', 200) \<and>
   saldo_of ''A'' (fst (transaccionesRouter_delete (env_at ''t3'' ''t3'') usuario ''t2''
       (store [(cuenta_row ''A'' 120)\<lparr>c_updatedAt := ''t2''\<rparr>]
          [(tx_row ''t2'' Ingreso 50 ''salario'' ''A'')\<lparr>t_createdAt := ''t2'', t_updatedAt := ''t2''\<rparr>])))
     = Some 70 \<and>
   transacciones (fst (transaccionesRouter_delete (env_at ''t3'' ''t3'') usuario ''t2''
       (store [(cuenta_row ''A'' 120)\<lparr>c_updatedAt := ''t2''\<rparr>]
          [(tx_row ''t2'' Ingreso 50 ''salario'' ''A'')\<lparr>t_createdAt := ''t2'', t_updatedAt := ''t2''\<rparr>])))
     = [] \<and>
   transaccionesRouter_delete (env_at ''t3'' ''t3'') usuario ''t5''
       (store [cuenta_row ''A'' 20] [tx_row ''t5'' Ingreso 50 ''salario'' ''A''])
     = (store [cuenta_row ''A'' 20] [tx_row ''t5'' Ingreso 50 ''salario'' ''A''],
        ErrorResponse ''ERR_INTERNAL'' ''Error al eliminar transaccion'', 500)"
proof -
  let ?ec = "env_at ''t2'' ''t2''"
  let ?e = "env_at ''t3'' ''t3''"
  let ?b = "new_tx Ingreso 50 ''salario'' ''A''"
  let ?db = "store [cuenta_row ''A'' 70] []"
  let ?t = "(tx_row ''t2'' Ingreso 50 ''salario'' ''A'')\<lparr>t_createdAt := ''t2'', t_updatedAt := ''t2''\<rparr>"
  let ?c1 = "(cuenta_row ''A'' 120)\<lparr>c_updatedAt := ''t2''\<rparr>"
  let ?db1 = "store [?c1] [?t]"
  let ?r = "tx_row ''t5'' Ingreso 50 ''salario'' ''A''"
  let ?dbr = "store [cuenta_row ''A'' 20] [?r]"
  have p: "transaccionesRouter_post ?ec usuario ?b ?db
     = (?db1, SuccessResponse ''Transaccion creada correctamente'', 200)"
    by (simp add: eval_defs)
  have c: "select_cuenta_activa usuario (b_cuenta_id ?b) ?db = Some (cuenta_row ''A'' 70)"
    by (simp add: select_defs fixture_defs)
  have f: "0 \<le> c_saldo (cuenta_row ''A'' 70)" by (simp add: fixture_defs)
  have t: "select_transaccion usuario ''t2'' ?db1 = Some ?t"
    by (simp add: select_defs fixture_defs)
  have c1: "select_cuenta (t_cuentaId ?t) ?db1 = Some ?c1"
    by (simp add: select_defs fixture_defs)
  have f1: "0 \<le> c_saldo ?c1 - signed ?t" by (simp add: signed_def fixture_defs)
  have tr: "select_transaccion usuario ''t5'' ?dbr = Some ?r"
    by (simp add: select_defs fixture_defs)
  have cr: "select_cuenta (t_cuentaId ?r) ?dbr = Some (cuenta_row ''A'' 20)"
    by (simp add: select_defs fixture_defs)
  have fr: "c_saldo (cuenta_row ''A'' 20) - signed ?r < 0" by (simp add: signed_def fixture_defs)
  note inst = delete_reverts [of usuario "''t2''" ?db1 ?e ?ec ?b]
  from inst t c1 f1
  have a: "snd (transaccionesRouter_delete ?e usuario ''t2'' ?db1)
      = (SuccessResponse ''Transaccion eliminada correctamente'', 200)"
    and b: "saldo_of (t_cuentaId ?t) (fst (transaccionesRouter_delete ?e usuario ''t2'' ?db1))
      = Some (c_saldo ?c1 - signed ?t)"
    by blast+
  from delete_reverts [of usuario "''t2''" ?db ?e ?ec ?b] p c f
  have r: "transacciones (fst (transaccionesRouter_delete ?e usuario (nanoid ?ec) ?db1))
      = transacciones ?db"
    by blast
  from delete_reverts [of usuario "''t5''" ?dbr ?e ?ec ?b] tr cr fr
  have x: "transaccionesRouter_delete ?e usuario ''t5'' ?dbr
      = (?dbr, ErrorResponse ''ERR_INTERNAL'' ''Error al eliminar transaccion'', 500)"
    by blast
  have n: "nanoid ?ec = ''t2''" by (simp add: env_at_def)
  have A: "t_cuentaId ?t = ''A''" and v: "c_saldo ?c1 - signed ?t = 70"
    and empty: "transacciones ?db = []"
    by (simp_all add: signed_def fixture_defs)
  from p a b r x show ?thesis unfolding n A v empty by blast
qed

text \<open>
  C10. Deleting an existing transaction whose referenced account row no longer exists
  succeeds: the transaction row is removed, the accounts table is not touched, and the reply
  is the success envelope.
\<close>

theorem delete_without_account:
  assumes "select_transaccion u i db = Some t"
    and "select_cuenta (t_cuentaId t) db = None"
  shows "transaccionesRouter_delete e u i db =
           (db\<lparr>transacciones := filter (\<lambda>r. t_id r \<noteq> i) (transacciones db)\<rparr>,
            SuccessResponse ''Transaccion eliminada correctamente'', 200)"
  using assms
  by (simp add: transaccionesRouter_delete_def delete_tx_def transaction_def
      delete_transaccion_def successResponse_def)

theorem delete_without_account_witness:
  "select_transaccion usuario ''t1''
       (store [cuenta_row ''B'' 200] [tx_row ''t1'' Gasto 30 ''food'' ''A''])
     = Some (tx_row ''t1'' Gasto 30 ''food'' ''A'') \<and>
   select_cuenta ''A'' (store [cuenta_row ''B'' 200] [tx_row ''t1'' Gasto 30 ''food'' ''A''])
     = None \<and>
   transaccionesRouter_delete (env_at ''t9'' ''n9'') usuario ''t1''
       (store [cuenta_row ''B'' 200] [tx_row ''t1'' Gasto 30 ''food'' ''A''])
     = (store [cuenta_row ''B'' 200] [],
        SuccessResponse ''Transaccion eliminada correctamente'', 200)"
proof -
  let ?db = "store [cuenta_row ''B'' 200] [tx_row ''t1'' Gasto 30 ''food'' ''A'']"
  let ?t = "tx_row ''t1'' Gasto 30 ''food'' ''A''"
  have h1: "select_transaccion usuario ''t1'' ?db = Some ?t"
    by (simp add: select_defs fixture_defs)
  have h2: "select_cuenta (t_cuentaId ?t) ?db = None"
    by (simp add: select_defs fixture_defs)
  from delete_without_account [OF h1 h2, of "env_at ''t9'' ''n9''"] h1 h2
  show ?thesis by (simp add: fixture_defs)
qed

subsection \<open>Sequences of create, update and delete\<close>


text \<open>
  The amended statement leaves out updates that supply an account. On the code such an
  update moves the two balances but not the row (the body's key \<^verbatim>\<open>cuenta_id\<close> is not a
  key of the table), so the relation is lost: the expense \<open>t1\<close> of 30 stays on account
  \<open>A\<close>, whose balance goes back to 100, while account \<open>B\<close> is charged.
\<close>

lemma patch_move_leaves_row:
  "ledger (\<lambda>a. if a = ''A'' then 100 else 200)
     (store [cuenta_row ''A'' 70, cuenta_row ''B'' 200] [tx_row ''t1'' Gasto 30 ''food'' ''A'']) \<and>
   transaccionesRouter_patch (env_at ''t3'' ''n3'') usuario ''t1''
       (no_change\<lparr>p_cuenta_id := Some ''B''\<rparr>)
       (store [cuenta_row ''A'' 70, cuenta_row ''B'' 200] [tx_row ''t1'' Gasto 30 ''food'' ''A''])
     = (store [(cuenta_row ''A'' 100)\<lparr>c_updatedAt := ''t3''\<rparr>,
               (cuenta_row ''B'' 170)\<lparr>c_updatedAt := ''t3''\<rparr>]
          [(tx_row ''t1'' Gasto 30 ''food'' ''A'')\<lparr>t_updatedAt := ''t3''\<rparr>],
        SuccessResponse ''Transaccion actualizada correctamente'', 200) \<and>
   \<not> ledger (\<lambda>a. if a = ''A'' then 100 else 200)
     (store [(cuenta_row ''A'' 100)\<lparr>c_updatedAt := ''t3''\<rparr>,
             (cuenta_row ''B'' 170)\<lparr>c_updatedAt := ''t3''\<rparr>]
        [(tx_row ''t1'' Gasto 30 ''food'' ''A'')\<lparr>t_updatedAt := ''t3''\<rparr>])"
  by (simp add: ledger_def contrib_def signed_def eval_defs)



end
